theory Spec2Isabelle
  imports Complex_Main "HOL-Library.Word"
begin

section \<open>The provider interface\<close>

text \<open>
  Both programs talk to the generation provider through the SDK module
  \<^verbatim>\<open>generation\<close>, whose enumeration members are plain integers in Python. The three
  members the source tests or passes are given the numbers they have in the SDK's
  protocol description; no theorem below depends on the numbers themselves.
\<close>

definition FILTER :: int where
  "FILTER = 4"

definition ARTIFACT_IMAGE :: int where
  "ARTIFACT_IMAGE = 1"

definition SAMPLER_K_DPMPP_2M :: int where
  "SAMPLER_K_DPMPP_2M = 9"

text \<open>
  An artifact as the source reads it: \<^verbatim>\<open>artifact.type\<close>, \<^verbatim>\<open>artifact.finish_reason\<close>
  and \<^verbatim>\<open>artifact.binary\<close>. A response chunk \<^verbatim>\<open>resp\<close> is read through
  \<^verbatim>\<open>resp.artifacts\<close> only.
\<close>

record artifact =
  artifact_type :: int
  finish_reason :: int
  binary :: "8 word list"

record answer =
  artifacts :: "artifact list"

text \<open>
  An exception is represented by \<^verbatim>\<open>str(e)\<close>, the only thing the handlers read from
  it. The exceptions of the model are those of class \<^verbatim>\<open>Exception\<close>, which is what
  every \<^verbatim>\<open>except\<close> clause of the source names.
\<close>

type_synonym exn = string

text \<open>
  \<^verbatim>\<open>answers\<close> is a Python generator: each \<^verbatim>\<open>for\<close> step either receives the next
  chunk, finds the generator exhausted, or has an exception raised in it.
\<close>

datatype answers = Stop | Throw exn | Yield answer answers

text \<open>
  The keyword arguments of \<^verbatim>\<open>stability_api.generate\<close>. The \<^verbatim>\<open>prompt\<close> argument is
  either a list of weighted \<^verbatim>\<open>generation.Prompt\<close> objects or a bare Python string.
\<close>

datatype PromptParameters = PromptParameters real

datatype Prompt = Prompt string PromptParameters

datatype prompt_arg = Prompts "Prompt list" | Plain string

record generate_kwargs =
  kw_prompt :: prompt_arg
  kw_steps :: nat
  kw_cfg_scale :: real
  kw_width :: nat
  kw_height :: nat
  kw_samples :: nat
  kw_sampler :: int

text \<open>
  A constructed client is used through its \<^verbatim>\<open>generate\<close> method only; calling it
  either raises or returns the generator.
\<close>

type_synonym api = "generate_kwargs \<Rightarrow> exn + answers"

section \<open>The world outside the program\<close>

text \<open>
  What the programs read from or call in their surroundings: the process environment,
  the SDK's client constructor (key, verbose flag, engine name), the image library
  (\<^verbatim>\<open>Image.open(io.BytesIO(b))\<close> and \<^verbatim>\<open>img.save(name)\<close>, each of which may raise), and
  the text of the identifier drawn by \<^verbatim>\<open>uuid.uuid4()\<close>. The decoded image is kept
  abstract.
\<close>

record 'img world =
  environ :: "string \<rightharpoonup> string"
  StabilityInference :: "string \<Rightarrow> bool \<Rightarrow> string \<Rightarrow> exn + api"
  Image_open :: "8 word list \<Rightarrow> exn + 'img"
  Image_save :: "'img \<Rightarrow> string \<Rightarrow> exn option"
  uuid4 :: string

text \<open>
  What a run does to its surroundings, in order of occurrence: the calls of
  \<^verbatim>\<open>generate\<close>, the payloads handed to \<^verbatim>\<open>Image.open\<close>, the files written by
  \<^verbatim>\<open>img.save\<close> (name and image), the warnings issued and the lines printed.
\<close>

record 'img effects =
  calls :: "generate_kwargs list"
  opened :: "8 word list list"
  files :: "(string \<times> 'img) list"
  warned :: "string list"
  printed :: "string list"

definition no_effects :: "'img effects" where
  "no_effects = \<lparr>calls = [], opened = [], files = [], warned = [], printed = []\<rparr>"

text \<open>
  A block of statements either runs to its end or raises; both leave the local
  variables and the effects at the values they had at that moment.
\<close>

datatype 'a run = Done 'a | Raised exn 'a

section \<open>Formatting\<close>

text \<open>Python's \<^verbatim>\<open>str\<close> of an integer, as the f-strings of the source use it.\<close>

definition digit :: "nat \<Rightarrow> char" where
  "digit d = ''0123456789'' ! d"

function str_nat :: "nat \<Rightarrow> string" where
  "str_nat n = (if n < 10 then [digit n] else str_nat (n div 10) @ [digit (n mod 10)])"
  by pat_completeness auto
termination
  by (relation "measure id") auto

declare str_nat.simps [simp del]

definition str_int :: "int \<Rightarrow> string" where
  "str_int i = (if i < 0 then ''-'' @ str_nat (nat (- i)) else str_nat (nat i))"

section \<open>The service (main.py)\<close>

text \<open>The module sets the provider host when it is loaded.\<close>

definition main_module_environ :: "(string \<rightharpoonup> string) \<Rightarrow> (string \<rightharpoonup> string)" where
  "main_module_environ env = env(''STABILITY_HOST'' \<mapsto> ''grpc.stability.ai:443'')"

text \<open>
  \<^verbatim>\<open>stability_api\<close> is a module-level variable, \<^verbatim>\<open>None\<close> until the start-up hook
  assigns it.
\<close>

definition stability_api_initial :: "api option" where
  "stability_api_initial = None"

text \<open>
  The start-up hook takes the current value of the global and returns the new one
  together with the lines it printed. It returns normally on every path.
\<close>

definition startup_event :: "'img world \<Rightarrow> api option \<Rightarrow> api option \<times> string list" where
  "startup_event w stability_api =
     (case environ w ''STABILITY_KEY'' of
        None \<Rightarrow>
          (stability_api,
           [''FATAL ERROR: STABILITY_KEY environment variable not set.'',
            ''Please set STABILITY_KEY before running the Uvicorn server.''])
      | Some api_key \<Rightarrow>
          if api_key = [] then
            (stability_api,
             [''FATAL ERROR: STABILITY_KEY environment variable not set.'',
              ''Please set STABILITY_KEY before running the Uvicorn server.''])
          else
            (case StabilityInference w api_key True ''stable-diffusion-xl-1024-v1-0'' of
               Inr a \<Rightarrow> (Some a, [''Successfully connected to Stability AI API on startup.''])
             | Inl e \<Rightarrow> (None, [''Error connecting to Stability AI on startup: '' @ e])))"

text \<open>The table is a dictionary literal; its order is the order of \<^verbatim>\<open>keys()\<close>.\<close>

definition ASPECT_RATIOS :: "(string \<times> nat \<times> nat) list" where
  "ASPECT_RATIOS =
     [(''1:1_square'', (1024, 1024)),
      (''16:9_widescreen'', (1344, 768)),
      (''9:16_tall'', (768, 1344)),
      (''3:2_landscape'', (1216, 832)),
      (''2:3_portrait'', (832, 1216))]"

text \<open>The endpoints return dictionaries from strings to strings or lists of strings.\<close>

datatype jvalue = Str string | Strs "string list"

type_synonym response = "(string \<times> jvalue) list"

definition read_root :: response where
  "read_root = [(''message'', Str ''Welcome to the AI Image Generator API!'')]"

text \<open>The local variables of the endpoint that the loop assigns, and their first values.\<close>

record main_locals =
  image_saved_successfully :: bool
  safety_filter_triggered :: bool
  error_message :: string

definition main_locals_initial :: main_locals where
  "main_locals_initial =
     \<lparr>image_saved_successfully = False,
      safety_filter_triggered = False,
      error_message = ''No image generated.''\<rparr>"

text \<open>
  The inner \<^verbatim>\<open>for artifact in resp.artifacts\<close> loop. A \<^verbatim>\<open>break\<close> ends the recursion;
  the filter test comes first, as in the source.
\<close>

fun main_artifacts ::
  "'img world \<Rightarrow> string \<Rightarrow> artifact list \<Rightarrow> main_locals \<times> 'img effects \<Rightarrow>
     (main_locals \<times> 'img effects) run" where
  "main_artifacts w output_filename [] (s, fx) = Done (s, fx)"
| "main_artifacts w output_filename (a # rest) (s, fx) =
     (if finish_reason a = FILTER then
        Done (s\<lparr>error_message := ''Safety filter activated. Please modify prompt.'',
                 safety_filter_triggered := True\<rparr>,
              fx\<lparr>warned := warned fx @
                   [''Request activated the API'' @ [CHR 0x27] @ ''s safety filter.'']\<rparr>)
      else if artifact_type a = ARTIFACT_IMAGE then
        (case Image_open w (binary a) of
           Inl e \<Rightarrow> Raised e (s, fx\<lparr>opened := opened fx @ [binary a]\<rparr>)
         | Inr img \<Rightarrow>
             (case Image_save w img output_filename of
                Some e \<Rightarrow> Raised e (s, fx\<lparr>opened := opened fx @ [binary a]\<rparr>)
              | None \<Rightarrow>
                  Done (s\<lparr>image_saved_successfully := True\<rparr>,
                        fx\<lparr>opened := opened fx @ [binary a],
                           files := files fx @ [(output_filename, img)],
                           printed := printed fx @
                             [''Image successfully saved as '' @ output_filename]\<rparr>)))
      else main_artifacts w output_filename rest (s, fx))"

text \<open>The outer \<^verbatim>\<open>for resp in answers\<close> loop with its \<^verbatim>\<open>break\<close> on either flag.\<close>

fun main_answers ::
  "'img world \<Rightarrow> string \<Rightarrow> answers \<Rightarrow> main_locals \<times> 'img effects \<Rightarrow>
     (main_locals \<times> 'img effects) run" where
  "main_answers w output_filename Stop st = Done st"
| "main_answers w output_filename (Throw e) st = Raised e st"
| "main_answers w output_filename (Yield resp rest) st =
     (case main_artifacts w output_filename (artifacts resp) st of
        Raised e st' \<Rightarrow> Raised e st'
      | Done st' \<Rightarrow>
          if image_saved_successfully (fst st') \<or> safety_filter_triggered (fst st') then Done st'
          else main_answers w output_filename rest st')"

text \<open>The argument list of the \<^verbatim>\<open>generate\<close> call of the endpoint.\<close>

definition main_kwargs :: "string \<Rightarrow> string \<Rightarrow> nat \<Rightarrow> nat \<Rightarrow> generate_kwargs" where
  "main_kwargs prompt negative_prompt image_width image_height =
     \<lparr>kw_prompt =
        (if negative_prompt \<noteq> [] then
           Prompts [Prompt prompt (PromptParameters 1.0),
                    Prompt negative_prompt (PromptParameters (- 1.0))]
         else Plain prompt),
      kw_steps = 50,
      kw_cfg_scale = 7.0,
      kw_width = image_width,
      kw_height = image_height,
      kw_samples = 1,
      kw_sampler = SAMPLER_K_DPMPP_2M\<rparr>"

text \<open>
  The part of the \<^verbatim>\<open>try\<close> body after the provider call: the three assignments, the
  loop and the two \<^verbatim>\<open>return\<close> statements. \<open>Inl\<close> is an exception leaving the block.
\<close>

definition main_respond ::
  "'img world \<Rightarrow> string \<Rightarrow> string \<Rightarrow> string \<Rightarrow> string \<Rightarrow> answers \<Rightarrow> 'img effects \<Rightarrow>
     (exn \<times> 'img effects) + (response \<times> 'img effects)" where
  "main_respond w prompt negative_prompt aspect_ratio_key output_filename answers fx =
     (case main_answers w output_filename answers (main_locals_initial, fx) of
        Raised e (s, fx') \<Rightarrow> Inl (e, fx')
      | Done (s, fx') \<Rightarrow>
          if image_saved_successfully s then
            Inr ([(''message'', Str ''Image generated successfully!''),
                  (''filename'', Str output_filename),
                  (''prompt'', Str prompt),
                  (''negative_prompt'', Str negative_prompt),
                  (''aspect_ratio'', Str aspect_ratio_key)], fx')
          else
            Inr ([(''error'', Str (error_message s)),
                  (''details'', Str ''Could not generate or save image.'')], fx'))"

text \<open>The whole \<^verbatim>\<open>try\<close> body: the provider call, then the part above.\<close>

definition main_try ::
  "'img world \<Rightarrow> api \<Rightarrow> string \<Rightarrow> string \<Rightarrow> string \<Rightarrow> nat \<Rightarrow> nat \<Rightarrow> string \<Rightarrow>
     'img effects \<Rightarrow> (exn \<times> 'img effects) + (response \<times> 'img effects)" where
  "main_try w stability_api prompt negative_prompt aspect_ratio_key image_width image_height
      output_filename fx =
     (let kwargs = main_kwargs prompt negative_prompt image_width image_height;
          fx1 = fx\<lparr>calls := calls fx @ [kwargs]\<rparr>
      in case stability_api kwargs of
           Inl e \<Rightarrow> Inl (e, fx1)
         | Inr answers \<Rightarrow>
             main_respond w prompt negative_prompt aspect_ratio_key output_filename answers fx1)"

text \<open>The name of the output file and the lines printed before the \<^verbatim>\<open>try\<close> statement.\<close>

definition main_output_filename :: "'img world \<Rightarrow> string" where
  "main_output_filename w = ''generated_image_'' @ uuid4 w @ ''.png''"

definition main_received ::
  "string \<Rightarrow> string \<Rightarrow> string \<Rightarrow> nat \<Rightarrow> nat \<Rightarrow> string \<Rightarrow> 'img effects" where
  "main_received prompt negative_prompt aspect_ratio_key image_width image_height
      output_filename =
     no_effects\<lparr>printed :=
       [[CHR 0x0A] @ ''Received request to generate image:'',
        ''  Prompt: '' @ [CHR 0x27] @ prompt @ [CHR 0x27]] @
       (if negative_prompt \<noteq> []
        then [''  Negative Prompt: '' @ [CHR 0x27] @ negative_prompt @ [CHR 0x27]]
        else []) @
       [''  Aspect Ratio: '' @ aspect_ratio_key @ '' ('' @
          str_nat image_width @ ''x'' @ str_nat image_height @ '')'',
        ''  Output Filename: '' @ output_filename]\<rparr>"

text \<open>
  The endpoint: the readiness test, the table lookup, the request log, then the
  \<^verbatim>\<open>try\<close> statement with its handler. It returns the response and the effects of
  the request.
\<close>

definition generate_image_endpoint ::
  "'img world \<Rightarrow> api option \<Rightarrow> string \<Rightarrow> string \<Rightarrow> string \<Rightarrow> response \<times> 'img effects" where
  "generate_image_endpoint w stability_api prompt negative_prompt aspect_ratio_key =
     (case stability_api of
        None \<Rightarrow>
          (let api_key_status =
                 (if (case environ w ''STABILITY_KEY'' of None \<Rightarrow> True | Some k \<Rightarrow> k = [])
                  then ''NOT SET or connection FAILED''
                  else ''Set, but connection FAILED on startup'')
           in ([(''error'', Str ''Stability API not initialized. Check server logs.''),
                (''detail'', Str (''STABILITY_KEY status: '' @ api_key_status @
                   ''. Please ensure it'' @ [CHR 0x27] @
                   ''s set correctly when starting Uvicorn.''))],
               no_effects))
      | Some the_api \<Rightarrow>
          (case map_of ASPECT_RATIOS aspect_ratio_key of
             None \<Rightarrow>
               ([(''error'', Str ''Invalid aspect_ratio_key''),
                 (''available_keys'', Strs (map fst ASPECT_RATIOS))], no_effects)
           | Some (image_width, image_height) \<Rightarrow>
               (let output_filename = main_output_filename w
                in case main_try w the_api prompt negative_prompt aspect_ratio_key
                          image_width image_height output_filename
                          (main_received prompt negative_prompt aspect_ratio_key
                             image_width image_height output_filename) of
                     Inr r \<Rightarrow> r
                   | Inl (e, fx) \<Rightarrow>
                       ([(''error'', Str ''Failed to generate image.''), (''details'', Str e)],
                        fx\<lparr>printed := printed fx @
                             [''Error during image generation: '' @ e]\<rparr>))))"

section \<open>The standalone program (generate\_image.py)\<close>

text \<open>The module-level parameters.\<close>

definition prompt_text :: string where
  "prompt_text = ''A fantasy castle on a floating island, vibrant colors, digital art''"

definition negative_prompt_text :: string where
  "negative_prompt_text = ''blurry, ugly, deformed, watermark, signature, text''"

definition aspect_ratios :: "(string \<times> nat \<times> nat) list" where
  "aspect_ratios =
     [(''1:1_square'', (1024, 1024)),
      (''16:9_widescreen'', (1344, 768)),
      (''9:16_tall'', (768, 1344))]"

definition selected_aspect_ratio :: string where
  "selected_aspect_ratio = ''16:9_widescreen''"

definition output_filename_script :: string where
  "output_filename_script = ''castle_widescreen.png''"

text \<open>How the program ends: at its last line, through \<^verbatim>\<open>exit()\<close>, or by an exception
  that no handler catches.\<close>

datatype status = Finished | Exited | Uncaught exn

text \<open>The argument list of the program's \<^verbatim>\<open>generate\<close> call, over the module variables
  it reads.\<close>

definition script_kwargs :: "string \<Rightarrow> string \<Rightarrow> nat \<Rightarrow> nat \<Rightarrow> generate_kwargs" where
  "script_kwargs the_prompt the_negative_prompt image_width image_height =
     \<lparr>kw_prompt =
        (if the_negative_prompt \<noteq> [] then
           Prompts [Prompt the_prompt (PromptParameters 1.0),
                    Prompt the_negative_prompt (PromptParameters (- 1.0))]
         else Plain the_prompt),
      kw_steps = 50,
      kw_cfg_scale = 7.0,
      kw_width = image_width,
      kw_height = image_height,
      kw_samples = 1,
      kw_sampler = SAMPLER_K_DPMPP_2M\<rparr>"

text \<open>The variables the loop assigns, and their first values.\<close>

record script_locals =
  image_saved :: bool
  safety_filter_activated :: bool
  last_artifact_type_info :: string

definition script_locals_initial :: script_locals where
  "script_locals_initial =
     \<lparr>image_saved = False,
      safety_filter_activated = False,
      last_artifact_type_info = ''No specific artifact processed.''\<rparr>"

text \<open>The f-string assigned to \<^verbatim>\<open>last_artifact_type_info\<close> at every artifact.\<close>

definition artifact_info :: "artifact \<Rightarrow> string" where
  "artifact_info a =
     ''Artifact type: '' @ str_int (artifact_type a) @
     '', Finish reason: '' @ str_int (finish_reason a)"

fun script_artifacts ::
  "'img world \<Rightarrow> artifact list \<Rightarrow> script_locals \<times> 'img effects \<Rightarrow>
     (script_locals \<times> 'img effects) run" where
  "script_artifacts w [] (s, fx) = Done (s, fx)"
| "script_artifacts w (a # rest) (s, fx) =
     (let s1 = s\<lparr>last_artifact_type_info := artifact_info a\<rparr>
      in if finish_reason a = FILTER then
           Done (s1\<lparr>safety_filter_activated := True\<rparr>,
                 fx\<lparr>warned := warned fx @
                      [''Your request activated the API'' @ [CHR 0x27] @
                       ''s safety filter and could not be processed. '' @
                       ''Please modify the prompt and try again.''],
                    printed := printed fx @ [''Safety filter activated. No image generated.'']\<rparr>)
         else if artifact_type a = ARTIFACT_IMAGE then
           (case Image_open w (binary a) of
              Inl e \<Rightarrow> Raised e (s1, fx\<lparr>opened := opened fx @ [binary a]\<rparr>)
            | Inr img \<Rightarrow>
                (case Image_save w img output_filename_script of
                   Some e \<Rightarrow> Raised e (s1, fx\<lparr>opened := opened fx @ [binary a]\<rparr>)
                 | None \<Rightarrow>
                     Done (s1\<lparr>image_saved := True\<rparr>,
                           fx\<lparr>opened := opened fx @ [binary a],
                              files := files fx @ [(output_filename_script, img)],
                              printed := printed fx @
                                [''Image successfully saved as '' @ output_filename_script]\<rparr>)))
         else script_artifacts w rest (s1, fx))"

fun script_answers ::
  "'img world \<Rightarrow> answers \<Rightarrow> script_locals \<times> 'img effects \<Rightarrow>
     (script_locals \<times> 'img effects) run" where
  "script_answers w Stop st = Done st"
| "script_answers w (Throw e) st = Raised e st"
| "script_answers w (Yield resp rest) st =
     (case script_artifacts w (artifacts resp) st of
        Raised e st' \<Rightarrow> Raised e st'
      | Done st' \<Rightarrow>
          if image_saved (fst st') \<or> safety_filter_activated (fst st') then Done st'
          else script_answers w rest st')"

text \<open>
  The section of the program after the provider call: the loop, the report of a
  response without image, and the closing line. Nothing catches an exception here.
\<close>

definition script_process :: "'img world \<Rightarrow> answers \<Rightarrow> 'img effects \<Rightarrow> status \<times> 'img effects" where
  "script_process w answers fx =
     (case script_answers w answers (script_locals_initial, fx) of
        Raised e (s, fx') \<Rightarrow> (Uncaught e, fx')
      | Done (s, fx') \<Rightarrow>
          (let fx2 =
                 (if \<not> image_saved s \<and> \<not> safety_filter_activated s then
                    fx'\<lparr>printed := printed fx' @
                      [''No image artifact found in the response. Last artifact info: '' @
                       last_artifact_type_info s]\<rparr>
                  else fx')
           in (Finished, fx2\<lparr>printed := printed fx2 @ [[CHR 0x0A] @ ''Script finished.'']\<rparr>)))"

text \<open>The program from its first line.\<close>

definition generate_image_script :: "'img world \<Rightarrow> status \<times> 'img effects" where
  "generate_image_script w =
     (case (case environ w ''STABILITY_KEY'' of
              None \<Rightarrow> Inl ''STABILITY_KEY environment variable not set or empty.''
            | Some api_key \<Rightarrow>
                if api_key = [] then Inl ''STABILITY_KEY environment variable not set or empty.''
                else StabilityInference w api_key True ''stable-diffusion-xl-1024-v1-0'') of
        Inl e \<Rightarrow> (Exited, no_effects\<lparr>printed := [''Error connecting to Stability AI: '' @ e]\<rparr>)
      | Inr stability_api \<Rightarrow>
          (case map_of aspect_ratios selected_aspect_ratio of
             None \<Rightarrow>
               (Uncaught ([CHR 0x27] @ selected_aspect_ratio @ [CHR 0x27]),
                no_effects\<lparr>printed := [''Successfully connected to Stability AI API.'']\<rparr>)
           | Some (image_width, image_height) \<Rightarrow>
               (let fx = no_effects\<lparr>printed :=
                           [''Successfully connected to Stability AI API.'',
                            [CHR 0x0A] @ ''Generating image for prompt: '' @ [CHR 0x27] @
                              prompt_text @ [CHR 0x27]] @
                           (if negative_prompt_text \<noteq> []
                            then [''Negative prompt: '' @ [CHR 0x27] @ negative_prompt_text @
                                  [CHR 0x27]]
                            else []) @
                           [''Aspect ratio: '' @ selected_aspect_ratio @ '' ('' @
                              str_nat image_width @ ''x'' @ str_nat image_height @ '')'']\<rparr>;
                    kwargs = script_kwargs prompt_text negative_prompt_text
                               image_width image_height;
                    fx1 = fx\<lparr>calls := calls fx @ [kwargs]\<rparr>
                in case stability_api kwargs of
                     Inl e \<Rightarrow> (Uncaught e, fx1)
                   | Inr answers \<Rightarrow> script_process w answers fx1)))"

section \<open>Vocabulary of the statements\<close>

text \<open>A generator that yields the given chunks and then continues as the given one.\<close>

fun yields :: "answer list \<Rightarrow> answers \<Rightarrow> answers" where
  "yields [] r = r"
| "yields (c # cs) r = Yield c (yields cs r)"

text \<open>An artifact on which neither test of the loop body fires.\<close>

definition undecided :: "artifact \<Rightarrow> bool" where
  "undecided a = (finish_reason a \<noteq> FILTER \<and> artifact_type a \<noteq> ARTIFACT_IMAGE)"

text \<open>All artifacts of a list of chunks, in arrival order.\<close>

definition all_artifacts :: "answer list \<Rightarrow> artifact list" where
  "all_artifacts cs = concat (map artifacts cs)"

text \<open>The state a block was left in, whether it ended or raised.\<close>

fun final :: "'a run \<Rightarrow> 'a" where
  "final (Done x) = x"
| "final (Raised e x) = x"

section \<open>Sample inputs\<close>

text \<open>
  A world whose image library accepts every non-empty payload and writes every file,
  and three artifacts: an image, an image-typed artifact carrying the filter tag, and an
  artifact that is neither.
\<close>

definition sample_world :: "(8 word list) world" where
  "sample_world =
     \<lparr>environ = [''STABILITY_KEY'' \<mapsto> ''sk-sample''],
      StabilityInference = (\<lambda>key verbose engine. Inl ''connection refused''),
      Image_open = (\<lambda>b. if b = [] then Inl ''cannot identify image file'' else Inr b),
      Image_save = (\<lambda>img name. None),
      uuid4 = ''0f8fad5b-d9cb-469f-a165-70867728950e''\<rparr>"

definition sample_image :: artifact where
  "sample_image = \<lparr>artifact_type = ARTIFACT_IMAGE, finish_reason = 0, binary = [137, 80, 78, 71]\<rparr>"

definition sample_filtered :: artifact where
  "sample_filtered = \<lparr>artifact_type = ARTIFACT_IMAGE, finish_reason = FILTER, binary = [137, 80]\<rparr>"

definition sample_other :: artifact where
  "sample_other = \<lparr>artifact_type = 3, finish_reason = 1, binary = []\<rparr>"

lemmas sample_defs =
  sample_world_def sample_image_def sample_filtered_def sample_other_def
  FILTER_def ARTIFACT_IMAGE_def undecided_def all_artifacts_def


section \<open>The loops skip undecided artifacts\<close>

lemma all_artifacts_simps:
  "all_artifacts [] = []"
  "all_artifacts (c # cs) = artifacts c @ all_artifacts cs"
  by (simp_all add: all_artifacts_def)

lemma main_artifacts_skip:
  "list_all undecided pre \<Longrightarrow>
     main_artifacts w fn (pre @ rest) (s, fx) = main_artifacts w fn rest (s, fx)"
  by (induction pre) (simp_all add: undecided_def)

lemma main_artifacts_undecided:
  "list_all undecided pre \<Longrightarrow> main_artifacts w fn pre (s, fx) = Done (s, fx)"
  using main_artifacts_skip [of pre w fn "[]" s fx] by simp

lemma main_answers_skip:
  assumes "list_all undecided (all_artifacts cs)"
    and "\<not> image_saved_successfully s" and "\<not> safety_filter_triggered s"
  shows "main_answers w fn (yields cs r) (s, fx) = main_answers w fn r (s, fx)"
  using assms
proof (induction cs)
  case Nil
  show ?case by simp
next
  case (Cons c cs)
  from Cons.prems have here: "list_all undecided (artifacts c)"
    and later: "list_all undecided (all_artifacts cs)"
    by (simp_all add: all_artifacts_simps)
  show ?case
    using Cons.IH [OF later Cons.prems(2,3)] Cons.prems(2,3)
    by (simp add: main_artifacts_undecided [OF here])
qed

lemma script_artifacts_skip:
  "list_all undecided pre \<Longrightarrow>
     script_artifacts w (pre @ rest) (s, fx) =
     script_artifacts w rest
       (s\<lparr>last_artifact_type_info :=
            (if pre = [] then last_artifact_type_info s else artifact_info (last pre))\<rparr>, fx)"
  by (induction pre arbitrary: s) (simp_all add: undecided_def Let_def)

lemma script_artifacts_undecided:
  "list_all undecided pre \<Longrightarrow>
     script_artifacts w pre (s, fx) =
     Done (s\<lparr>last_artifact_type_info :=
            (if pre = [] then last_artifact_type_info s else artifact_info (last pre))\<rparr>, fx)"
  using script_artifacts_skip [of pre w "[]" s fx] by simp

lemma script_answers_skip:
  assumes "list_all undecided (all_artifacts cs)"
    and "\<not> image_saved s" and "\<not> safety_filter_activated s"
  shows "script_answers w (yields cs r) (s, fx) =
     script_answers w r
       (s\<lparr>last_artifact_type_info :=
            (if all_artifacts cs = [] then last_artifact_type_info s
             else artifact_info (last (all_artifacts cs)))\<rparr>, fx)"
  using assms
proof (induction cs arbitrary: s)
  case Nil
  show ?case by (simp add: all_artifacts_simps)
next
  case (Cons c cs)
  from Cons.prems have here: "list_all undecided (artifacts c)"
    and later: "list_all undecided (all_artifacts cs)"
    by (simp_all add: all_artifacts_simps)
  let ?s = "s\<lparr>last_artifact_type_info :=
            (if artifacts c = [] then last_artifact_type_info s
             else artifact_info (last (artifacts c)))\<rparr>"
  have flags: "\<not> image_saved ?s" "\<not> safety_filter_activated ?s"
    using Cons.prems(2,3) by simp_all
  show ?case
    using Cons.IH [OF later flags] flags
    by (simp add: script_artifacts_undecided [OF here] all_artifacts_simps)
qed

section \<open>What the loops leave untouched\<close>

lemma main_artifacts_calls:
  "calls (snd (final (main_artifacts w fn as (s, fx)))) = calls fx"
  by (induction as) (simp_all split: sum.splits option.splits)

lemma main_answers_calls:
  "calls (snd (final (main_answers w fn S st))) = calls (snd st)"
proof (induction S arbitrary: st)
  case Stop
  show ?case by simp
next
  case (Throw e)
  show ?case by simp
next
  case (Yield resp rest)
  obtain s fx where st: "st = (s, fx)" by (cases st)
  show ?case
  proof (cases "main_artifacts w fn (artifacts resp) (s, fx)")
    case (Done st')
    with main_artifacts_calls [of w fn "artifacts resp" s fx] Yield.IH [of st'] st
    show ?thesis by simp
  next
    case (Raised e st')
    with main_artifacts_calls [of w fn "artifacts resp" s fx] st
    show ?thesis by simp
  qed
qed

lemma main_try_calls:
  "calls (case_sum snd snd (main_try w stability_api p n k iw ih fn fx)) =
     calls fx @ [main_kwargs p n iw ih]"
proof (cases "stability_api (main_kwargs p n iw ih)")
  case (Inl e)
  then show ?thesis by (simp add: main_try_def)
next
  case (Inr S)
  let ?fx = "fx\<lparr>calls := calls fx @ [main_kwargs p n iw ih]\<rparr>"
  have "calls (snd (final (main_answers w fn S (main_locals_initial, ?fx)))) =
          calls fx @ [main_kwargs p n iw ih]"
    by (simp add: main_answers_calls)
  then show ?thesis
    using Inr
    by (cases "main_answers w fn S (main_locals_initial, ?fx)")
       (auto simp: main_try_def main_respond_def split: prod.splits)
qed

lemma endpoint_calls:
  assumes "map_of ASPECT_RATIOS key = Some (iw, ih)"
  shows "calls (snd (generate_image_endpoint w (Some stability_api) p n key)) =
           [main_kwargs p n iw ih]"
proof -
  let ?fn = "main_output_filename w"
  let ?fx = "main_received p n key iw ih ?fn :: 'a effects"
  have "calls ?fx = []" by (simp add: main_received_def no_effects_def)
  with main_try_calls [of w stability_api p n key iw ih ?fn ?fx]
  show ?thesis
    using assms
    by (cases "main_try w stability_api p n key iw ih ?fn ?fx")
       (auto simp: generate_image_endpoint_def split: prod.splits)
qed

lemma main_artifacts_inv:
  assumes "\<not> safety_filter_triggered s"
  shows "(safety_filter_triggered (fst (final (main_artifacts w fn as (s, fx)))) \<longrightarrow>
            files (snd (final (main_artifacts w fn as (s, fx)))) = files fx \<and>
            opened (snd (final (main_artifacts w fn as (s, fx)))) = opened fx) \<and>
         (\<forall>st'. main_artifacts w fn as (s, fx) = Done st' \<and>
            \<not> image_saved_successfully (fst st') \<and> \<not> safety_filter_triggered (fst st') \<longrightarrow>
            st' = (s, fx))"
  using assms by (induction as) (auto split: sum.splits option.splits)

lemma main_answers_inv:
  assumes "\<not> safety_filter_triggered s"
  shows "safety_filter_triggered (fst (final (main_answers w fn S (s, fx)))) \<longrightarrow>
            files (snd (final (main_answers w fn S (s, fx)))) = files fx \<and>
            opened (snd (final (main_answers w fn S (s, fx)))) = opened fx"
proof (induction S)
  case Stop
  show ?case using assms by simp
next
  case (Throw e)
  show ?case using assms by simp
next
  case (Yield resp rest)
  note inner = main_artifacts_inv [OF assms, of w fn "artifacts resp" fx]
  show ?case
  proof (cases "main_artifacts w fn (artifacts resp) (s, fx)")
    case (Raised e st')
    with inner show ?thesis by simp
  next
    case (Done st')
    show ?thesis
    proof (cases "image_saved_successfully (fst st') \<or> safety_filter_triggered (fst st')")
      case True
      with inner Done show ?thesis by auto
    next
      case False
      with inner Done have "st' = (s, fx)" by (cases st') simp
      with Done False Yield.IH show ?thesis by simp
    qed
  qed
qed

lemma script_artifacts_inv:
  assumes "\<not> safety_filter_activated s"
  shows "(safety_filter_activated (fst (final (script_artifacts w as (s, fx)))) \<longrightarrow>
            files (snd (final (script_artifacts w as (s, fx)))) = files fx \<and>
            opened (snd (final (script_artifacts w as (s, fx)))) = opened fx) \<and>
         (\<forall>st'. script_artifacts w as (s, fx) = Done st' \<and>
            \<not> image_saved (fst st') \<and> \<not> safety_filter_activated (fst st') \<longrightarrow>
            snd st' = fx)"
  using assms
proof (induction as arbitrary: s)
  case Nil
  then show ?case by simp
next
  case (Cons a as)
  let ?s1 = "s\<lparr>last_artifact_type_info := artifact_info a\<rparr>"
  have s1: "\<not> safety_filter_activated ?s1" using Cons.prems by simp
  show ?case
  proof (cases "finish_reason a = FILTER \<or> artifact_type a = ARTIFACT_IMAGE")
    case True
    with Cons.prems show ?thesis
      by (auto simp: Let_def split: sum.splits option.splits)
  next
    case False
    then have step: "script_artifacts w (a # as) (s, fx) = script_artifacts w as (?s1, fx)"
      by (simp add: Let_def)
    show ?thesis unfolding step by (rule Cons.IH [OF s1])
  qed
qed

lemma script_answers_inv:
  assumes "\<not> safety_filter_activated s"
  shows "safety_filter_activated (fst (final (script_answers w S (s, fx)))) \<longrightarrow>
            files (snd (final (script_answers w S (s, fx)))) = files fx \<and>
            opened (snd (final (script_answers w S (s, fx)))) = opened fx"
  using assms
proof (induction S arbitrary: s)
  case Stop
  then show ?case by simp
next
  case (Throw e)
  then show ?case by simp
next
  case (Yield resp rest)
  note inner = script_artifacts_inv [OF Yield.prems, of w "artifacts resp" fx]
  show ?case
  proof (cases "script_artifacts w (artifacts resp) (s, fx)")
    case (Raised e st')
    with inner show ?thesis by simp
  next
    case (Done st')
    show ?thesis
    proof (cases "image_saved (fst st') \<or> safety_filter_activated (fst st')")
      case True
      with inner Done show ?thesis by auto
    next
      case False
      obtain s' where st': "st' = (s', fx)" using inner Done False by (cases st') auto
      with False have "\<not> safety_filter_activated s'" by simp
      from Yield.IH [OF this] Done False st' show ?thesis by simp
    qed
  qed
qed

lemma script_artifacts_calls:
  "calls (snd (final (script_artifacts w as (s, fx)))) = calls fx"
  by (induction as arbitrary: s) (simp_all add: Let_def split: sum.splits option.splits)

lemma script_answers_calls:
  "calls (snd (final (script_answers w S st))) = calls (snd st)"
proof (induction S arbitrary: st)
  case Stop
  show ?case by simp
next
  case (Throw e)
  show ?case by simp
next
  case (Yield resp rest)
  obtain s fx where st: "st = (s, fx)" by (cases st)
  show ?case
  proof (cases "script_artifacts w (artifacts resp) (s, fx)")
    case (Done st')
    with script_artifacts_calls [of w "artifacts resp" s fx] Yield.IH [of st'] st
    show ?thesis by simp
  next
    case (Raised e st')
    with script_artifacts_calls [of w "artifacts resp" s fx] st
    show ?thesis by simp
  qed
qed

lemma script_process_calls:
  "calls (snd (script_process w answers fx)) = calls fx"
proof -
  have "calls (snd (final (script_answers w answers (script_locals_initial, fx)))) = calls fx"
    by (simp add: script_answers_calls)
  then show ?thesis
    by (cases "script_answers w answers (script_locals_initial, fx)")
       (auto simp: script_process_def Let_def split: prod.splits)
qed

lemma script_calls:
  assumes "environ w ''STABILITY_KEY'' = Some api_key" and "api_key \<noteq> []"
    and "StabilityInference w api_key True ''stable-diffusion-xl-1024-v1-0'' = Inr the_api"
  shows "calls (snd (generate_image_script w)) =
           [script_kwargs prompt_text negative_prompt_text 1344 768]"
proof -
  have size: "map_of aspect_ratios selected_aspect_ratio = Some (1344, 768)"
    by (simp add: aspect_ratios_def selected_aspect_ratio_def)
  show ?thesis
    using assms size
    by (cases "the_api (script_kwargs prompt_text negative_prompt_text 1344 768)")
       (simp_all add: generate_image_script_def Let_def script_process_calls no_effects_def)
qed

section \<open>The shapes of the endpoint's responses\<close>




section \<open>The response interpreter\<close>

text \<open>
  C1. Let a response stream yield chunks whose artifacts are all undecided, then a chunk
  in which, after undecided artifacts only, an artifact carries the filter finish-reason.
  Then the service answers with the safety-filter error and the standalone program
  reports the filter and finishes, whatever follows that artifact in its chunk and
  whatever the rest of the stream is: nothing is opened or written, and in particular a
  valid image after the filtered artifact is ignored.
\<close>

theorem first_filter_signal_wins:
  assumes "list_all undecided (all_artifacts cs)"
    and "list_all undecided pre"
    and "finish_reason a = FILTER"
  shows "main_respond w prompt negative_prompt aspect_ratio_key output_filename
           (yields cs (Yield \<lparr>artifacts = pre @ a # post\<rparr> rest)) fx =
         Inr ([(''error'', Str ''Safety filter activated. Please modify prompt.''),
               (''details'', Str ''Could not generate or save image.'')],
              fx\<lparr>warned := warned fx @
                   [''Request activated the API'' @ [CHR 0x27] @ ''s safety filter.'']\<rparr>) \<and>
         script_process w (yields cs (Yield \<lparr>artifacts = pre @ a # post\<rparr> rest)) fx =
           (Finished,
            fx\<lparr>warned := warned fx @
                 [''Your request activated the API'' @ [CHR 0x27] @
                  ''s safety filter and could not be processed. '' @
                  ''Please modify the prompt and try again.''],
               printed := printed fx @
                 [''Safety filter activated. No image generated.'',
                  [CHR 0x0A] @ ''Script finished.'']\<rparr>)"
proof
  have "main_answers w output_filename
          (yields cs (Yield \<lparr>artifacts = pre @ a # post\<rparr> rest)) (main_locals_initial, fx) =
        Done (main_locals_initial
                \<lparr>error_message := ''Safety filter activated. Please modify prompt.'',
                 safety_filter_triggered := True\<rparr>,
              fx\<lparr>warned := warned fx @
                   [''Request activated the API'' @ [CHR 0x27] @ ''s safety filter.'']\<rparr>)"
    using assms(3)
    by (simp add: main_answers_skip [OF assms(1)] main_artifacts_skip [OF assms(2)]
          main_locals_initial_def)
  then show "main_respond w prompt negative_prompt aspect_ratio_key output_filename
           (yields cs (Yield \<lparr>artifacts = pre @ a # post\<rparr> rest)) fx =
         Inr ([(''error'', Str ''Safety filter activated. Please modify prompt.''),
               (''details'', Str ''Could not generate or save image.'')],
              fx\<lparr>warned := warned fx @
                   [''Request activated the API'' @ [CHR 0x27] @ ''s safety filter.'']\<rparr>)"
    by (simp add: main_respond_def main_locals_initial_def)
next
  show "script_process w (yields cs (Yield \<lparr>artifacts = pre @ a # post\<rparr> rest)) fx =
           (Finished,
            fx\<lparr>warned := warned fx @
                 [''Your request activated the API'' @ [CHR 0x27] @
                  ''s safety filter and could not be processed. '' @
                  ''Please modify the prompt and try again.''],
               printed := printed fx @
                 [''Safety filter activated. No image generated.'',
                  [CHR 0x0A] @ ''Script finished.'']\<rparr>)"
    using assms(3)
    by (simp add: script_process_def script_answers_skip [OF assms(1)]
          script_artifacts_skip [OF assms(2)] script_locals_initial_def Let_def)
qed

theorem first_filter_signal_wins_witness:
  "list_all undecided (all_artifacts [\<lparr>artifacts = [sample_other]\<rparr>]) \<and>
   list_all undecided [sample_other] \<and>
   finish_reason sample_filtered = FILTER \<and>
   main_respond sample_world ''a red fox'' [] ''1:1_square'' ''out.png''
     (Yield \<lparr>artifacts = [sample_other]\<rparr>
        (Yield \<lparr>artifacts = [sample_other, sample_filtered, sample_image]\<rparr>
           (Yield \<lparr>artifacts = [sample_image]\<rparr> Stop))) no_effects =
     Inr ([(''error'', Str ''Safety filter activated. Please modify prompt.''),
           (''details'', Str ''Could not generate or save image.'')],
          no_effects\<lparr>warned :=
            [''Request activated the API'' @ [CHR 0x27] @ ''s safety filter.'']\<rparr>) \<and>
   script_process sample_world
     (Yield \<lparr>artifacts = [sample_other]\<rparr>
        (Yield \<lparr>artifacts = [sample_other, sample_filtered, sample_image]\<rparr>
           (Yield \<lparr>artifacts = [sample_image]\<rparr> Stop))) no_effects =
     (Finished,
      no_effects\<lparr>warned :=
          [''Your request activated the API'' @ [CHR 0x27] @
           ''s safety filter and could not be processed. '' @
           ''Please modify the prompt and try again.''],
        printed :=
          [''Safety filter activated. No image generated.'',
           [CHR 0x0A] @ ''Script finished.'']\<rparr>)"
proof -
  have h1: "list_all undecided (all_artifacts [\<lparr>artifacts = [sample_other]\<rparr>])"
    by (simp add: sample_defs)
  have h2: "list_all undecided [sample_other]"
    by (simp add: sample_defs)
  have h3: "finish_reason sample_filtered = FILTER"
    by (simp add: sample_defs)
  show ?thesis
    using h1 h2 h3
      first_filter_signal_wins [OF h1 h2 h3, of sample_world "''a red fox''" "[]"
        "''1:1_square''" "''out.png''" "[sample_image]" "Yield \<lparr>artifacts = [sample_image]\<rparr> Stop"
        no_effects]
    by (simp add: no_effects_def)
qed

text \<open>
  C6, as the code has it. Let a response stream yield chunks whose artifacts are all
  undecided, then a chunk in which, after undecided artifacts only, an artifact has the
  image type and a finish-reason other than the filter tag, and let the image library
  decode its payload and write the file without raising. Then the payload is decoded
  once, the image is written once under the target name, the service answers with the
  success message and the standalone program finishes, whatever follows that artifact.
  The claim as written leaves out the artifact's own finish-reason: an image-typed
  artifact carrying the filter tag is classified by the filter test, which comes first,
  and a payload the image library rejects raises instead of being saved.
\<close>

theorem first_image_is_saved:
  assumes "list_all undecided (all_artifacts cs)"
    and "list_all undecided pre"
    and "artifact_type a = ARTIFACT_IMAGE"
    and "finish_reason a \<noteq> FILTER"
    and "Image_open w (binary a) = Inr img"
    and "Image_save w img output_filename = None"
    and "Image_save w img output_filename_script = None"
  shows "main_respond w prompt negative_prompt aspect_ratio_key output_filename
           (yields cs (Yield \<lparr>artifacts = pre @ a # post\<rparr> rest)) fx =
         Inr ([(''message'', Str ''Image generated successfully!''),
               (''filename'', Str output_filename),
               (''prompt'', Str prompt),
               (''negative_prompt'', Str negative_prompt),
               (''aspect_ratio'', Str aspect_ratio_key)],
              fx\<lparr>opened := opened fx @ [binary a],
                 files := files fx @ [(output_filename, img)],
                 printed := printed fx @
                   [''Image successfully saved as '' @ output_filename]\<rparr>) \<and>
         script_process w (yields cs (Yield \<lparr>artifacts = pre @ a # post\<rparr> rest)) fx =
           (Finished,
            fx\<lparr>opened := opened fx @ [binary a],
               files := files fx @ [(output_filename_script, img)],
               printed := printed fx @
                 [''Image successfully saved as '' @ output_filename_script,
                  [CHR 0x0A] @ ''Script finished.'']\<rparr>)"
proof
  show "main_respond w prompt negative_prompt aspect_ratio_key output_filename
           (yields cs (Yield \<lparr>artifacts = pre @ a # post\<rparr> rest)) fx =
         Inr ([(''message'', Str ''Image generated successfully!''),
               (''filename'', Str output_filename),
               (''prompt'', Str prompt),
               (''negative_prompt'', Str negative_prompt),
               (''aspect_ratio'', Str aspect_ratio_key)],
              fx\<lparr>opened := opened fx @ [binary a],
                 files := files fx @ [(output_filename, img)],
                 printed := printed fx @
                   [''Image successfully saved as '' @ output_filename]\<rparr>)"
    using assms(3-6)
    by (simp add: main_respond_def main_answers_skip [OF assms(1)]
          main_artifacts_skip [OF assms(2)] main_locals_initial_def)
next
  show "script_process w (yields cs (Yield \<lparr>artifacts = pre @ a # post\<rparr> rest)) fx =
           (Finished,
            fx\<lparr>opened := opened fx @ [binary a],
               files := files fx @ [(output_filename_script, img)],
               printed := printed fx @
                 [''Image successfully saved as '' @ output_filename_script,
                  [CHR 0x0A] @ ''Script finished.'']\<rparr>)"
    using assms(3-5,7)
    by (simp add: script_process_def script_answers_skip [OF assms(1)]
          script_artifacts_skip [OF assms(2)] script_locals_initial_def Let_def)
qed

theorem first_image_is_saved_witness:
  "list_all undecided (all_artifacts [\<lparr>artifacts = [sample_other]\<rparr>]) \<and>
   list_all undecided [sample_other] \<and>
   artifact_type sample_image = ARTIFACT_IMAGE \<and>
   finish_reason sample_image \<noteq> FILTER \<and>
   Image_open sample_world (binary sample_image) = Inr [137, 80, 78, 71] \<and>
   Image_save sample_world [137, 80, 78, 71] ''out.png'' = None \<and>
   Image_save sample_world [137, 80, 78, 71] output_filename_script = None \<and>
   main_respond sample_world ''a red fox'' [] ''1:1_square'' ''out.png''
     (Yield \<lparr>artifacts = [sample_other]\<rparr>
        (Yield \<lparr>artifacts = [sample_other, sample_image, sample_filtered]\<rparr> (Throw ''reset''))) no_effects =
     Inr ([(''message'', Str ''Image generated successfully!''),
           (''filename'', Str ''out.png''),
           (''prompt'', Str ''a red fox''),
           (''negative_prompt'', Str []),
           (''aspect_ratio'', Str ''1:1_square'')],
          no_effects\<lparr>opened := [[137, 80, 78, 71]],
             files := [(''out.png'', [137, 80, 78, 71])],
             printed := [''Image successfully saved as out.png'']\<rparr>)"
proof -
  have h1: "list_all undecided (all_artifacts [\<lparr>artifacts = [sample_other]\<rparr>])"
    by (simp add: sample_defs)
  have h2: "list_all undecided [sample_other]"
    by (simp add: sample_defs)
  have h3: "artifact_type sample_image = ARTIFACT_IMAGE"
    by (simp add: sample_defs)
  have h4: "finish_reason sample_image \<noteq> FILTER"
    by (simp add: sample_defs)
  have h5: "Image_open sample_world (binary sample_image) = Inr [137, 80, 78, 71]"
    by (simp add: sample_defs)
  have h6: "Image_save sample_world [137, 80, 78, 71] ''out.png'' = None"
    by (simp add: sample_defs)
  have h7: "Image_save sample_world [137, 80, 78, 71] output_filename_script = None"
    by (simp add: sample_defs)
  show ?thesis
    using h1 h2 h3 h4 h5 h6 h7
      first_image_is_saved [OF h1 h2 h3 h4 h5 h6 h7, of "''a red fox''" "[]"
        "''1:1_square''" "[sample_filtered]" "Throw ''reset''" no_effects]
    by (simp add: no_effects_def sample_image_def)
qed

theorem image_typed_filter_artifact_counterexample:
  "artifact_type sample_filtered = ARTIFACT_IMAGE \<and>
   main_respond sample_world ''a red fox'' [] ''1:1_square'' ''out.png''
     (Yield \<lparr>artifacts = [sample_filtered]\<rparr> Stop) no_effects =
   Inr ([(''error'', Str ''Safety filter activated. Please modify prompt.''),
         (''details'', Str ''Could not generate or save image.'')],
        no_effects\<lparr>warned := [''Request activated the API'' @ [CHR 0x27] @ ''s safety filter.'']\<rparr>) \<and>
   fst (script_process sample_world
     (Yield \<lparr>artifacts = [\<lparr>artifact_type = ARTIFACT_IMAGE, finish_reason = 0, binary = []\<rparr>]\<rparr> Stop)
     no_effects) = Uncaught ''cannot identify image file''"
  by (simp add: main_respond_def script_process_def main_locals_initial_def
        script_locals_initial_def no_effects_def sample_defs Let_def)

text \<open>
  C2, as the code has it. Let a response stream yield chunks whose artifacts are all
  undecided (possibly none at all) and then end. The service answers with the fixed
  error \<^verbatim>\<open>No image generated.\<close> and leaves the effects as they were; the standalone
  program prints the type and finish-reason of the last artifact it saw, or the marker
  \<^verbatim>\<open>No specific artifact processed.\<close> when it saw none, and finishes. The service keeps
  no record of the last artifact: its answer is the same whatever artifacts went by.
\<close>

theorem exhausted_stream_is_empty:
  assumes "list_all undecided (all_artifacts cs)"
  shows "main_respond w prompt negative_prompt aspect_ratio_key output_filename
           (yields cs Stop) fx =
         Inr ([(''error'', Str ''No image generated.''),
               (''details'', Str ''Could not generate or save image.'')], fx) \<and>
         script_process w (yields cs Stop) fx =
           (Finished,
            fx\<lparr>printed := printed fx @
                 [''No image artifact found in the response. Last artifact info: '' @
                    (if all_artifacts cs = [] then ''No specific artifact processed.''
                     else artifact_info (last (all_artifacts cs))),
                  [CHR 0x0A] @ ''Script finished.'']\<rparr>)"
proof
  show "main_respond w prompt negative_prompt aspect_ratio_key output_filename
           (yields cs Stop) fx =
         Inr ([(''error'', Str ''No image generated.''),
               (''details'', Str ''Could not generate or save image.'')], fx)"
    by (simp add: main_respond_def main_answers_skip [OF assms] main_locals_initial_def)
next
  show "script_process w (yields cs Stop) fx =
           (Finished,
            fx\<lparr>printed := printed fx @
                 [''No image artifact found in the response. Last artifact info: '' @
                    (if all_artifacts cs = [] then ''No specific artifact processed.''
                     else artifact_info (last (all_artifacts cs))),
                  [CHR 0x0A] @ ''Script finished.'']\<rparr>)"
    by (simp add: script_process_def script_answers_skip [OF assms]
          script_locals_initial_def Let_def)
qed

theorem exhausted_stream_is_empty_witness:
  "list_all undecided
     (all_artifacts [\<lparr>artifacts = []\<rparr>, \<lparr>artifacts = [sample_other]\<rparr>, \<lparr>artifacts = []\<rparr>]) \<and>
   main_respond sample_world ''a red fox'' [] ''1:1_square'' ''out.png''
     (Yield \<lparr>artifacts = []\<rparr> (Yield \<lparr>artifacts = [sample_other]\<rparr>
        (Yield \<lparr>artifacts = []\<rparr> Stop))) no_effects =
     Inr ([(''error'', Str ''No image generated.''),
           (''details'', Str ''Could not generate or save image.'')], no_effects) \<and>
   script_process sample_world
     (Yield \<lparr>artifacts = []\<rparr> (Yield \<lparr>artifacts = [sample_other]\<rparr>
        (Yield \<lparr>artifacts = []\<rparr> Stop))) no_effects =
     (Finished,
      no_effects\<lparr>printed :=
        [''No image artifact found in the response. Last artifact info: '' @
           ''Artifact type: 3, Finish reason: 1'',
         [CHR 0x0A] @ ''Script finished.'']\<rparr>)"
proof -
  have h: "list_all undecided
     (all_artifacts [\<lparr>artifacts = []\<rparr>, \<lparr>artifacts = [sample_other]\<rparr>, \<lparr>artifacts = []\<rparr>])"
    by (simp add: sample_defs)
  have info: "artifact_info sample_other = ''Artifact type: 3, Finish reason: 1''"
    by (simp add: artifact_info_def sample_other_def str_int_def str_nat.simps digit_def)
  show ?thesis
    using h info
      exhausted_stream_is_empty [OF h, of sample_world "''a red fox''" "[]"
        "''1:1_square''" "''out.png''" no_effects]
    by (simp add: no_effects_def all_artifacts_def)
qed

theorem service_empty_diagnostic_counterexample:
  "main_respond sample_world ''a red fox'' [] ''1:1_square'' ''out.png''
     (Yield \<lparr>artifacts = [sample_other]\<rparr> Stop) no_effects =
   main_respond sample_world ''a red fox'' [] ''1:1_square'' ''out.png'' Stop no_effects \<and>
   main_respond sample_world ''a red fox'' [] ''1:1_square'' ''out.png''
     (Yield \<lparr>artifacts = [sample_other]\<rparr> Stop) no_effects =
   Inr ([(''error'', Str ''No image generated.''),
         (''details'', Str ''Could not generate or save image.'')], no_effects)"
  by (simp add: main_respond_def main_locals_initial_def sample_defs)

text \<open>
  C9. An artifact with the filter finish-reason is never handed to the image library
  and never written, whatever its type, in either program; and whenever a run of either
  loop ends (normally or by an exception) with the filter flag set, nothing was opened
  and no file was written in that run.
\<close>

theorem filter_check_precedes_image_check:
  "(finish_reason a = FILTER \<longrightarrow>
      opened (snd (final (main_artifacts w output_filename (a # rest) (s, fx)))) = opened fx \<and>
      files (snd (final (main_artifacts w output_filename (a # rest) (s, fx)))) = files fx \<and>
      opened (snd (final (script_artifacts w (a # rest) (s', fx)))) = opened fx \<and>
      files (snd (final (script_artifacts w (a # rest) (s', fx)))) = files fx) \<and>
   (safety_filter_triggered
      (fst (final (main_answers w output_filename answers (main_locals_initial, fx)))) \<longrightarrow>
      opened (snd (final (main_answers w output_filename answers (main_locals_initial, fx)))) =
        opened fx \<and>
      files (snd (final (main_answers w output_filename answers (main_locals_initial, fx)))) =
        files fx) \<and>
   (safety_filter_activated
      (fst (final (script_answers w answers (script_locals_initial, fx)))) \<longrightarrow>
      opened (snd (final (script_answers w answers (script_locals_initial, fx)))) = opened fx \<and>
      files (snd (final (script_answers w answers (script_locals_initial, fx)))) = files fx)"
proof (intro conjI)
  show "finish_reason a = FILTER \<longrightarrow>
      opened (snd (final (main_artifacts w output_filename (a # rest) (s, fx)))) = opened fx \<and>
      files (snd (final (main_artifacts w output_filename (a # rest) (s, fx)))) = files fx \<and>
      opened (snd (final (script_artifacts w (a # rest) (s', fx)))) = opened fx \<and>
      files (snd (final (script_artifacts w (a # rest) (s', fx)))) = files fx"
    by (simp add: Let_def)
next
  have "\<not> safety_filter_triggered main_locals_initial"
    by (simp add: main_locals_initial_def)
  from main_answers_inv [OF this]
  show "safety_filter_triggered
      (fst (final (main_answers w output_filename answers (main_locals_initial, fx)))) \<longrightarrow>
      opened (snd (final (main_answers w output_filename answers (main_locals_initial, fx)))) =
        opened fx \<and>
      files (snd (final (main_answers w output_filename answers (main_locals_initial, fx)))) =
        files fx"
    by blast
next
  have "\<not> safety_filter_activated script_locals_initial"
    by (simp add: script_locals_initial_def)
  from script_answers_inv [OF this]
  show "safety_filter_activated
      (fst (final (script_answers w answers (script_locals_initial, fx)))) \<longrightarrow>
      opened (snd (final (script_answers w answers (script_locals_initial, fx)))) = opened fx \<and>
      files (snd (final (script_answers w answers (script_locals_initial, fx)))) = files fx"
    by blast
qed

theorem filter_check_precedes_image_check_witness:
  "finish_reason sample_filtered = FILTER \<and>
   artifact_type sample_filtered = ARTIFACT_IMAGE \<and>
   safety_filter_triggered
     (fst (final (main_answers sample_world ''out.png''
        (Yield \<lparr>artifacts = [sample_other, sample_filtered, sample_image]\<rparr> Stop)
        (main_locals_initial, no_effects)))) \<and>
   safety_filter_activated
     (fst (final (script_answers sample_world
        (Yield \<lparr>artifacts = [sample_other, sample_filtered, sample_image]\<rparr> Stop)
        (script_locals_initial, no_effects)))) \<and>
   opened (snd (final (main_artifacts sample_world ''out.png'' [sample_filtered, sample_image]
     (main_locals_initial, no_effects)))) = [] \<and>
   files (snd (final (main_answers sample_world ''out.png''
        (Yield \<lparr>artifacts = [sample_other, sample_filtered, sample_image]\<rparr> Stop)
        (main_locals_initial, no_effects)))) = [] \<and>
   files (snd (final (script_answers sample_world
        (Yield \<lparr>artifacts = [sample_other, sample_filtered, sample_image]\<rparr> Stop)
        (script_locals_initial, no_effects)))) = []"
proof -
  have h1: "finish_reason sample_filtered = FILTER"
    and h2: "artifact_type sample_filtered = ARTIFACT_IMAGE"
    by (simp_all add: sample_defs)
  have h3: "safety_filter_triggered
     (fst (final (main_answers sample_world ''out.png''
        (Yield \<lparr>artifacts = [sample_other, sample_filtered, sample_image]\<rparr> Stop)
        (main_locals_initial, no_effects))))"
    by (simp add: sample_defs)
  have h4: "safety_filter_activated
     (fst (final (script_answers sample_world
        (Yield \<lparr>artifacts = [sample_other, sample_filtered, sample_image]\<rparr> Stop)
        (script_locals_initial, no_effects))))"
    by (simp add: sample_defs Let_def)
  have e: "opened (no_effects :: (8 word list) effects) = []"
    "files (no_effects :: (8 word list) effects) = []"
    by (simp_all add: no_effects_def)
  show ?thesis
    using h1 h2 h3 h4 e
      filter_check_precedes_image_check [of sample_filtered sample_world "''out.png''"
        "[sample_image]" main_locals_initial no_effects script_locals_initial
        "Yield \<lparr>artifacts = [sample_other, sample_filtered, sample_image]\<rparr> Stop"]
    by simp
qed

section \<open>The aspect-ratio tables\<close>

text \<open>
  C10. The two programs have different tables. The standalone program's table has
  exactly the keys 1:1\_square, 16:9\_widescreen and 9:16\_tall; its entries form a proper
  subset of the entries of the service's five-key table, which also maps
  3:2\_landscape to (1216, 832) and 2:3\_portrait to (832, 1216); every entry of the
  smaller table is found unchanged in the larger one.
\<close>

theorem aspect_ratio_tables:
  "aspect_ratios \<noteq> ASPECT_RATIOS \<and>
   map fst aspect_ratios = [''1:1_square'', ''16:9_widescreen'', ''9:16_tall''] \<and>
   map fst ASPECT_RATIOS =
     [''1:1_square'', ''16:9_widescreen'', ''9:16_tall'', ''3:2_landscape'', ''2:3_portrait''] \<and>
   distinct (map fst ASPECT_RATIOS) \<and>
   set aspect_ratios \<subset> set ASPECT_RATIOS \<and>
   map_of ASPECT_RATIOS ''3:2_landscape'' = Some (1216, 832) \<and>
   map_of ASPECT_RATIOS ''2:3_portrait'' = Some (832, 1216) \<and>
   map_of aspect_ratios ''3:2_landscape'' = None \<and>
   map_of aspect_ratios ''2:3_portrait'' = None \<and>
   list_all (\<lambda>(k, v). map_of ASPECT_RATIOS k = Some v) aspect_ratios"
proof -
  have sub: "set aspect_ratios \<subseteq> set ASPECT_RATIOS"
    by (simp add: aspect_ratios_def ASPECT_RATIOS_def)
  have inside: "(''3:2_landscape'', (1216, 832)) \<in> set ASPECT_RATIOS"
    by (simp add: ASPECT_RATIOS_def)
  have outside: "(''3:2_landscape'', (1216, 832)) \<notin> set aspect_ratios"
    by (simp add: aspect_ratios_def)
  from inside outside have "set aspect_ratios \<noteq> set ASPECT_RATIOS"
    by blast
  with sub have strict: "set aspect_ratios \<subset> set ASPECT_RATIOS"
    by (simp add: psubset_eq)
  from inside outside have differ: "aspect_ratios \<noteq> ASPECT_RATIOS"
    by metis
  have rest:
    "map fst aspect_ratios = [''1:1_square'', ''16:9_widescreen'', ''9:16_tall'']"
    "map fst ASPECT_RATIOS =
       [''1:1_square'', ''16:9_widescreen'', ''9:16_tall'', ''3:2_landscape'', ''2:3_portrait'']"
    "distinct (map fst ASPECT_RATIOS)"
    "map_of ASPECT_RATIOS ''3:2_landscape'' = Some (1216, 832)"
    "map_of ASPECT_RATIOS ''2:3_portrait'' = Some (832, 1216)"
    "map_of aspect_ratios ''3:2_landscape'' = None"
    "map_of aspect_ratios ''2:3_portrait'' = None"
    "list_all (\<lambda>(k, v). map_of ASPECT_RATIOS k = Some v) aspect_ratios"
    by (simp_all add: aspect_ratios_def ASPECT_RATIOS_def)
  from strict differ rest show ?thesis by (intro conjI)
qed

section \<open>The request builder\<close>

text \<open>
  C7. With a non-empty negative prompt and a key of the table, the one call the
  endpoint makes passes exactly two prompt components, the prompt with weight 1.0 and
  then the negative prompt with weight -1.0; the standalone program's call expression
  builds the same two components from its prompt variables, and a run of the
  standalone program that connects makes one call with these two components built
  from its fixed prompt and negative prompt.
\<close>

theorem negative_prompt_gives_two_weighted_prompts:
  assumes "negative_prompt \<noteq> []"
    and "map_of ASPECT_RATIOS aspect_ratio_key = Some (image_width, image_height)"
  shows "calls (snd (generate_image_endpoint w (Some stability_api) prompt negative_prompt
                      aspect_ratio_key)) =
           [\<lparr>kw_prompt = Prompts [Prompt prompt (PromptParameters 1),
                                  Prompt negative_prompt (PromptParameters (- 1))],
             kw_steps = 50, kw_cfg_scale = 7,
             kw_width = image_width, kw_height = image_height,
             kw_samples = 1, kw_sampler = SAMPLER_K_DPMPP_2M\<rparr>] \<and>
         kw_prompt (script_kwargs the_prompt negative_prompt script_width script_height) =
           Prompts [Prompt the_prompt (PromptParameters 1),
                    Prompt negative_prompt (PromptParameters (- 1))] \<and>
         (environ w ''STABILITY_KEY'' = Some api_key \<and> api_key \<noteq> [] \<and>
          StabilityInference w api_key True ''stable-diffusion-xl-1024-v1-0'' = Inr the_api \<longrightarrow>
            map kw_prompt (calls (snd (generate_image_script w))) =
              [Prompts [Prompt prompt_text (PromptParameters 1),
                        Prompt negative_prompt_text (PromptParameters (- 1))]])"
proof (intro conjI impI)
  show "calls (snd (generate_image_endpoint w (Some stability_api) prompt negative_prompt
                      aspect_ratio_key)) =
           [\<lparr>kw_prompt = Prompts [Prompt prompt (PromptParameters 1),
                                  Prompt negative_prompt (PromptParameters (- 1))],
             kw_steps = 50, kw_cfg_scale = 7,
             kw_width = image_width, kw_height = image_height,
             kw_samples = 1, kw_sampler = SAMPLER_K_DPMPP_2M\<rparr>]"
    using assms(1) by (simp add: endpoint_calls [OF assms(2)] main_kwargs_def)
next
  show "kw_prompt (script_kwargs the_prompt negative_prompt script_width script_height) =
           Prompts [Prompt the_prompt (PromptParameters 1),
                    Prompt negative_prompt (PromptParameters (- 1))]"
    using assms(1) by (simp add: script_kwargs_def)
next
  assume "environ w ''STABILITY_KEY'' = Some api_key \<and> api_key \<noteq> [] \<and>
          StabilityInference w api_key True ''stable-diffusion-xl-1024-v1-0'' = Inr the_api"
  then have "calls (snd (generate_image_script w)) =
               [script_kwargs prompt_text negative_prompt_text 1344 768]"
    by (simp add: script_calls)
  then show "map kw_prompt (calls (snd (generate_image_script w))) =
              [Prompts [Prompt prompt_text (PromptParameters 1),
                        Prompt negative_prompt_text (PromptParameters (- 1))]]"
    by (simp add: script_kwargs_def negative_prompt_text_def)
qed

theorem negative_prompt_gives_two_weighted_prompts_witness:
  "negative_prompt_text \<noteq> [] \<and>
   map_of ASPECT_RATIOS selected_aspect_ratio = Some (1344, 768) \<and>
   map kw_prompt
     (calls (snd (generate_image_endpoint
                    (sample_world\<lparr>StabilityInference :=
                       \<lambda>key verbose engine. Inr (\<lambda>kwargs. Inr Stop)\<rparr>)
                    (Some (\<lambda>kwargs. Inr Stop))
                    prompt_text negative_prompt_text selected_aspect_ratio))) =
     [Prompts [Prompt prompt_text (PromptParameters 1),
               Prompt negative_prompt_text (PromptParameters (- 1))]] \<and>
   map kw_prompt
     (calls (snd (generate_image_script
                    (sample_world\<lparr>StabilityInference :=
                       \<lambda>key verbose engine. Inr (\<lambda>kwargs. Inr Stop)\<rparr>)))) =
     [Prompts [Prompt prompt_text (PromptParameters 1),
               Prompt negative_prompt_text (PromptParameters (- 1))]]"
proof -
  let ?w = "sample_world\<lparr>StabilityInference :=
              \<lambda>key verbose engine. Inr (\<lambda>kwargs. Inr Stop)\<rparr>"
  have h1: "negative_prompt_text \<noteq> []"
    by (simp add: negative_prompt_text_def)
  have h2: "map_of ASPECT_RATIOS selected_aspect_ratio = Some (1344, 768)"
    by (simp add: ASPECT_RATIOS_def selected_aspect_ratio_def)
  have h3: "environ ?w ''STABILITY_KEY'' = Some ''sk-sample'' \<and> ''sk-sample'' \<noteq> [] \<and>
            StabilityInference ?w ''sk-sample'' True ''stable-diffusion-xl-1024-v1-0'' =
              Inr (\<lambda>kwargs. Inr Stop)"
    by (simp add: sample_world_def)
  note at_sample = negative_prompt_gives_two_weighted_prompts [OF h1 h2,
      where w = ?w and stability_api = "\<lambda>kwargs. Inr Stop" and prompt = prompt_text
        and api_key = "''sk-sample''" and the_api = "\<lambda>kwargs. Inr Stop"]
  from at_sample [THEN conjunct1]
  have first: "map kw_prompt
     (calls (snd (generate_image_endpoint ?w (Some (\<lambda>kwargs. Inr Stop))
                    prompt_text negative_prompt_text selected_aspect_ratio))) =
     [Prompts [Prompt prompt_text (PromptParameters 1),
               Prompt negative_prompt_text (PromptParameters (- 1))]]"
    by simp
  from at_sample [THEN conjunct2, THEN conjunct2] h3
  have second: "map kw_prompt (calls (snd (generate_image_script ?w))) =
     [Prompts [Prompt prompt_text (PromptParameters 1),
               Prompt negative_prompt_text (PromptParameters (- 1))]]"
    by blast
  from h1 h2 first second show ?thesis by (intro conjI)
qed

text \<open>
  C3, as the code has it. With an empty negative prompt and a key of the table, the one
  call the endpoint makes passes the prompt as a bare string, without a
  \<^verbatim>\<open>generation.Prompt\<close> component and without any weight, and the width and height
  of the table entry for the key; the standalone program's call expression does the
  same. The claim as written expects a component carrying the weight 1.0, which neither
  program builds in this case.
\<close>

theorem empty_negative_prompt_gives_bare_prompt:
  assumes "map_of ASPECT_RATIOS aspect_ratio_key = Some (image_width, image_height)"
  shows "calls (snd (generate_image_endpoint w (Some stability_api) prompt []
                      aspect_ratio_key)) =
           [\<lparr>kw_prompt = Plain prompt,
             kw_steps = 50, kw_cfg_scale = 7,
             kw_width = image_width, kw_height = image_height,
             kw_samples = 1, kw_sampler = SAMPLER_K_DPMPP_2M\<rparr>] \<and>
         script_kwargs the_prompt [] script_width script_height =
           \<lparr>kw_prompt = Plain the_prompt,
            kw_steps = 50, kw_cfg_scale = 7,
            kw_width = script_width, kw_height = script_height,
            kw_samples = 1, kw_sampler = SAMPLER_K_DPMPP_2M\<rparr>"
  by (simp add: endpoint_calls [OF assms] main_kwargs_def script_kwargs_def)

theorem empty_negative_prompt_gives_bare_prompt_witness:
  "map_of ASPECT_RATIOS ''9:16_tall'' = Some (768, 1344) \<and>
   calls (snd (generate_image_endpoint sample_world (Some (\<lambda>kwargs. Inr Stop))
                 ''a red fox'' [] ''9:16_tall'')) =
     [\<lparr>kw_prompt = Plain ''a red fox'',
       kw_steps = 50, kw_cfg_scale = 7,
       kw_width = 768, kw_height = 1344,
       kw_samples = 1, kw_sampler = SAMPLER_K_DPMPP_2M\<rparr>]"
proof -
  have h: "map_of ASPECT_RATIOS ''9:16_tall'' = Some (768, 1344)"
    by (simp add: ASPECT_RATIOS_def)
  show ?thesis
    using h empty_negative_prompt_gives_bare_prompt [OF h, of sample_world
        "\<lambda>kwargs. Inr Stop" "''a red fox''"]
    by simp
qed

theorem weighted_single_prompt_counterexample:
  "map kw_prompt
     (calls (snd (generate_image_endpoint sample_world (Some (\<lambda>kwargs. Inr Stop))
                    ''a red fox'' [] ''1:1_square''))) = [Plain ''a red fox''] \<and>
   map kw_prompt
     (calls (snd (generate_image_endpoint sample_world (Some (\<lambda>kwargs. Inr Stop))
                    ''a red fox'' [] ''1:1_square''))) \<noteq>
     [Prompts [Prompt ''a red fox'' (PromptParameters 1)]]"
proof -
  have "map_of ASPECT_RATIOS ''1:1_square'' = Some (1024, 1024)"
    by (simp add: ASPECT_RATIOS_def)
  from endpoint_calls [OF this, of sample_world "\<lambda>kwargs. Inr Stop" "''a red fox''" "[]"]
  show ?thesis
    by (simp add: main_kwargs_def)
qed

text \<open>
  C4, as the code has it. For a key that is not in the table the endpoint never calls
  the provider; when the client handle is set it answers with the invalid-key error,
  which lists the keys of the table in the table's order. When the handle is unset the
  readiness test, which comes first, answers instead.
\<close>

theorem invalid_aspect_ratio_rejected:
  assumes "aspect_ratio_key \<notin> fst ` set ASPECT_RATIOS"
  shows "generate_image_endpoint w (Some the_api) prompt negative_prompt aspect_ratio_key =
           ([(''error'', Str ''Invalid aspect_ratio_key''),
             (''available_keys'', Strs (map fst ASPECT_RATIOS))], no_effects) \<and>
         map fst ASPECT_RATIOS =
           [''1:1_square'', ''16:9_widescreen'', ''9:16_tall'', ''3:2_landscape'',
            ''2:3_portrait''] \<and>
         calls (snd (generate_image_endpoint w stability_api prompt negative_prompt
                       aspect_ratio_key)) = []"
proof -
  from assms have none: "map_of ASPECT_RATIOS aspect_ratio_key = None"
    by (simp add: map_of_eq_None_iff)
  have keys: "map fst ASPECT_RATIOS =
           [''1:1_square'', ''16:9_widescreen'', ''9:16_tall'', ''3:2_landscape'',
            ''2:3_portrait'']"
    by (simp add: ASPECT_RATIOS_def)
  have quiet: "calls (snd (generate_image_endpoint w stability_api prompt negative_prompt
                       aspect_ratio_key)) = []"
    using none
    by (cases stability_api) (simp_all add: generate_image_endpoint_def no_effects_def Let_def)
  from none keys quiet show ?thesis
    by (simp add: generate_image_endpoint_def)
qed

theorem invalid_aspect_ratio_rejected_witness:
  "''4:3_classic'' \<notin> fst ` set ASPECT_RATIOS \<and>
   generate_image_endpoint sample_world (Some (\<lambda>kwargs. Inr Stop)) ''a red fox'' []
     ''4:3_classic'' =
     ([(''error'', Str ''Invalid aspect_ratio_key''),
       (''available_keys'',
        Strs [''1:1_square'', ''16:9_widescreen'', ''9:16_tall'', ''3:2_landscape'',
              ''2:3_portrait''])], no_effects)"
proof -
  have h: "''4:3_classic'' \<notin> fst ` set ASPECT_RATIOS"
    by (simp add: ASPECT_RATIOS_def)
  show ?thesis
    using h invalid_aspect_ratio_rejected [OF h, of sample_world "\<lambda>kwargs. Inr Stop"
        "''a red fox''" "[]" None]
    by simp
qed

theorem invalid_key_on_unready_service_counterexample:
  "''4:3_classic'' \<notin> fst ` set ASPECT_RATIOS \<and>
   fst (startup_event sample_world stability_api_initial) = None \<and>
   fst (generate_image_endpoint sample_world
          (fst (startup_event sample_world stability_api_initial))
          ''a red fox'' [] ''4:3_classic'') =
     [(''error'', Str ''Stability API not initialized. Check server logs.''),
      (''detail'', Str (''STABILITY_KEY status: Set, but connection FAILED on startup'' @
          ''. Please ensure it'' @ [CHR 0x27] @ ''s set correctly when starting Uvicorn.''))]"
  by (simp add: ASPECT_RATIOS_def startup_event_def stability_api_initial_def
        generate_image_endpoint_def sample_world_def)

section \<open>Client initialisation\<close>

text \<open>
  C5. When the credential variable is unset or empty at start-up, the start-up hook
  returns normally, prints the two diagnostic lines and leaves the handle unset. Every
  request handled with that handle, in whatever environment and with whatever
  arguments (a key outside the table included), is answered with the not-initialized
  error, and no call of the provider and no other effect takes place.
\<close>

theorem missing_credential_degrades:
  assumes "environ w ''STABILITY_KEY'' = None \<or> environ w ''STABILITY_KEY'' = Some []"
  shows "startup_event w stability_api_initial =
           (None,
            [''FATAL ERROR: STABILITY_KEY environment variable not set.'',
             ''Please set STABILITY_KEY before running the Uvicorn server.'']) \<and>
         generate_image_endpoint w2 (fst (startup_event w stability_api_initial))
             prompt negative_prompt aspect_ratio_key =
           ([(''error'', Str ''Stability API not initialized. Check server logs.''),
             (''detail'',
              Str (''STABILITY_KEY status: '' @
                   (if environ w2 ''STABILITY_KEY'' = None \<or>
                       environ w2 ''STABILITY_KEY'' = Some []
                    then ''NOT SET or connection FAILED''
                    else ''Set, but connection FAILED on startup'') @
                   ''. Please ensure it'' @ [CHR 0x27] @
                   ''s set correctly when starting Uvicorn.''))],
            no_effects) \<and>
         calls (snd (generate_image_endpoint w2 (fst (startup_event w stability_api_initial))
             prompt negative_prompt aspect_ratio_key)) = []"
proof -
  from assms have start: "startup_event w stability_api_initial =
           (None,
            [''FATAL ERROR: STABILITY_KEY environment variable not set.'',
             ''Please set STABILITY_KEY before running the Uvicorn server.''])"
    by (auto simp: startup_event_def stability_api_initial_def)
  show ?thesis
    unfolding start
    by (cases "environ w2 ''STABILITY_KEY''")
       (simp_all add: generate_image_endpoint_def no_effects_def)
qed

theorem missing_credential_degrades_witness:
  "environ (sample_world\<lparr>environ := Map.empty\<rparr>) ''STABILITY_KEY'' = None \<and>
   startup_event (sample_world\<lparr>environ := Map.empty\<rparr>) stability_api_initial =
     (None,
      [''FATAL ERROR: STABILITY_KEY environment variable not set.'',
       ''Please set STABILITY_KEY before running the Uvicorn server.'']) \<and>
   generate_image_endpoint (sample_world\<lparr>environ := Map.empty\<rparr>)
       (fst (startup_event (sample_world\<lparr>environ := Map.empty\<rparr>) stability_api_initial))
       ''a red fox'' [] ''4:3_classic'' =
     ([(''error'', Str ''Stability API not initialized. Check server logs.''),
       (''detail'',
        Str (''STABILITY_KEY status: NOT SET or connection FAILED'' @
             ''. Please ensure it'' @ [CHR 0x27] @
             ''s set correctly when starting Uvicorn.''))],
      no_effects)"
proof -
  have h: "environ (sample_world\<lparr>environ := Map.empty\<rparr>) ''STABILITY_KEY'' = None \<or>
           environ (sample_world\<lparr>environ := Map.empty\<rparr>) ''STABILITY_KEY'' = Some []"
    by simp
  note at_sample = missing_credential_degrades [OF h,
        where ?w2.0 = "sample_world\<lparr>environ := Map.empty\<rparr>"
          and prompt = "''a red fox''" and negative_prompt = "[]"
          and aspect_ratio_key = "''4:3_classic''"]
  show ?thesis
    using h at_sample [THEN conjunct1] at_sample [THEN conjunct2]
    by simp
qed

section \<open>The request boundary\<close>



end
